theory Spec2Isabelle
  imports Complex_Main "HOL-Library.Sublist"
begin

section \<open>Python values shared by the modules\<close>

text \<open>
  The failures the modelled code can raise. The repository defines no exception class of
  its own: a missing dictionary key raises Python's \<open>KeyError\<close> (carrying the key), and
  the interval computation \<open>int(12/daily_water)\<close> raises when \<open>daily_water\<close> is zero
  (\<open>ZeroDivisionError\<close> on a Python float; on a numpy float the quotient is infinite and
  \<open>int\<close> raises on it).
\<close>

datatype py_error = KeyError string | ZeroDivisionError

text \<open>
  Dictionaries whose values have several types (a reading, a profile) are records with one
  optional field per key the code reads: \<open>None\<close> is an absent key. \<open>d[k]\<close> raises
  \<open>KeyError\<close> on an absent key, \<open>d.get(k, default)\<close> returns the default.
\<close>

definition getitem :: "'v option \<Rightarrow> string \<Rightarrow> py_error + 'v" where
  "getitem field k = (case field of None \<Rightarrow> Inl (KeyError k) | Some v \<Rightarrow> Inr v)"

definition get_or :: "'v option \<Rightarrow> 'v \<Rightarrow> 'v" where
  "get_or field dflt = (case field of None \<Rightarrow> dflt | Some v \<Rightarrow> v)"

text \<open>Sequencing of statements that may raise: the first failure is the result.\<close>

definition bind_err :: "'e + 'a \<Rightarrow> ('a \<Rightarrow> 'e + 'b) \<Rightarrow> 'e + 'b" where
  "bind_err m f = (case m of Inl e \<Rightarrow> Inl e | Inr v \<Rightarrow> f v)"

text \<open>
  Python floats are modelled as exact reals: comparisons with the integer thresholds are the
  same on both, and the rounding error of float arithmetic is left out.
  \<open>int(x)\<close> truncates towards zero; \<open>round(x, 1)\<close> rounds to one decimal place, a tie
  going to the even digit.
\<close>

definition py_int :: "real \<Rightarrow> int" where
  "py_int x = (if x \<ge> 0 then \<lfloor>x\<rfloor> else \<lceil>x\<rceil>)"

definition round_half_even :: "real \<Rightarrow> int" where
  "round_half_even x =
    (let f = \<lfloor>x\<rfloor>; d = x - of_int f
     in if d < 1 / 2 then f else if d > 1 / 2 then f + 1 else if even f then f else f + 1)"

definition py_round1 :: "real \<Rightarrow> real" where
  "py_round1 x = of_int (round_half_even (x * 10)) / 10"

text \<open>\<open>d.get(k, default)\<close> on a dictionary given as a map.\<close>

definition dict_get :: "('k \<rightharpoonup> 'v) \<Rightarrow> 'k \<Rightarrow> 'v \<Rightarrow> 'v" where
  "dict_get d k dflt = (case d k of None \<Rightarrow> dflt | Some v \<Rightarrow> v)"

text \<open>\<open>sep.join(xs)\<close> on strings.\<close>

fun join :: "string \<Rightarrow> string list \<Rightarrow> string" where
  "join sep [] = []"
| "join sep [x] = x"
| "join sep (x # y # ys) = x @ sep @ join sep (y # ys)"

section \<open>Heat index: \<open>data_fetcher.py\<close>, \<open>DataFetcher._calculate_heat_index\<close>\<close>

definition calculate_heat_index :: "real \<Rightarrow> real \<Rightarrow> real" where
  "calculate_heat_index temperature humidity =
    (if temperature < 27 then temperature
     else
      (let T = temperature;
           RH = humidity;
           HI = (- 8.78469475556 +
                 1.61139411 * T +
                 2.33854883889 * RH +
                 - 0.14611605 * T * RH +
                 - 0.012308094 * T * T +
                 - 0.0164248277778 * RH * RH +
                 0.002211732 * T * T * RH +
                 0.00072546 * T * RH * RH +
                 - 0.000003582 * T * T * RH * RH)
       in py_round1 HI))"

section \<open>Risk model: \<open>ml_model.py\<close>, class \<open>RiskPredictionModel\<close>\<close>

subsection \<open>Training labels (\<open>_train_model\<close>)\<close>

text \<open>
  \<open>X_train\<close> is an array of rows of nine features; \<open>X_train[i, k]\<close> is \<open>X ! i ! k\<close>.
  The body of the labelling loop, up to the perturbation, for one row:
\<close>

definition rule_risk :: "real list \<Rightarrow> int" where
  "rule_risk x =
    (let risk0 = 0;
         risk1 = (if x ! 0 > 40 then risk0 + 3
                  else if x ! 0 > 35 then risk0 + 2
                  else if x ! 0 > 32 then risk0 + 1 else risk0);
         risk2 = (if x ! 4 > 300 then risk1 + 3
                  else if x ! 4 > 200 then risk1 + 2
                  else if x ! 4 > 100 then risk1 + 1 else risk1);
         risk3 = (if x ! 3 > 8 then risk2 + 1 else risk2);
         risk4 = (if x ! 6 > 60 \<or> x ! 8 = 1 then risk3 + 1 else risk3);
         risk5 = (if x ! 7 > 6 then risk4 + 1 else risk4)
     in risk5)"

text \<open>
  \<open>y_train[i] = min(10, risk + np.random.randint(-1, 2))\<close>: the second argument is the
  value drawn, one of -1, 0 and 1.
\<close>

definition train_label :: "real list \<Rightarrow> int \<Rightarrow> int" where
  "train_label x p = min 10 (rule_risk x + p)"

text \<open>The loop \<open>for i in range(n_samples)\<close>; \<open>draw i\<close> is the value drawn in round \<open>i\<close>.\<close>

definition y_train :: "real list list \<Rightarrow> (nat \<Rightarrow> int) \<Rightarrow> int list" where
  "y_train X draw = map (\<lambda>i. train_label (X ! i) (draw i)) [0..<length X]"

subsection \<open>Severity level\<close>

definition get_severity_level :: "real \<Rightarrow> string" where
  "get_severity_level risk_score =
    (if risk_score \<le> 2 then ''Low''
     else if risk_score \<le> 5 then ''Moderate''
     else if risk_score \<le> 7 then ''High''
     else ''Very High'')"

subsection \<open>Readings, profile and advisories\<close>

record weather_data =
  temperature :: "real option"
  heat_index :: "real option"
  humidity :: "real option"
  uv_index :: "real option"
  timestamp :: "string option"

record aqi_data =
  aqi :: "real option"
  pm2_5 :: "real option"

record user_profile =
  age :: "int option"
  outdoor_hours :: "real option"
  health_conditions :: "string list option"

text \<open>
  The text of an advisory is an f-string. It is kept as its pieces: literal text, a float
  formatted with \<open>:.1f\<close>, and an integer printed in decimal.
  Message texts are given without their leading pictograph, which is not ASCII.
\<close>

datatype piece = Text string | Fixed1 real | Decimal int

record advisory =
  category :: string
  priority :: string
  message :: "piece list"
  action :: "piece list"

text \<open>Truth value of \<open>user_profile.get('health_conditions')\<close>: absent and empty are false.\<close>

definition has_health_conditions :: "user_profile \<Rightarrow> bool" where
  "has_health_conditions user_profile =
    (case health_conditions user_profile of None \<Rightarrow> False | Some cs \<Rightarrow> cs \<noteq> [])"

subsection \<open>Recommendations (\<open>_generate_recommendations\<close>)\<close>

definition daily_water :: "real \<Rightarrow> real" where
  "daily_water risk_score = 3.5 + (risk_score * 0.3)"

text \<open>
  The body of \<open>_generate_recommendations\<close> is a sequence of seven blocks, each of which
  appends to the list \<open>recommendations\<close> built so far. Each block is a function from the
  list before it to the list after it; the hydration block can raise.
\<close>

definition temperature_block :: "advisory list \<Rightarrow> real \<Rightarrow> advisory list" where
  "temperature_block recs temp =
    (if temp > 40
     then recs @
       [\<lparr>category = ''heat'', priority = ''high'',
         message = [Text ''Extreme heat! Stay indoors during 11 AM - 4 PM''],
         action = [Text ''Avoid outdoor activities'']\<rparr>]
     else if temp > 35
     then recs @
       [\<lparr>category = ''heat'', priority = ''medium'',
         message = [Text ''Very hot weather. Limit outdoor exposure''],
         action = [Text ''Stay in shade, wear light clothing'']\<rparr>]
     else recs)"

definition hydration_block :: "advisory list \<Rightarrow> real \<Rightarrow> real \<Rightarrow> py_error + advisory list" where
  "hydration_block recs temp risk_score =
    (if temp > 32 \<or> risk_score > 3
     then (let dw = daily_water risk_score
           in if dw = 0 then Inl ZeroDivisionError
              else Inr (recs @
                [\<lparr>category = ''hydration'', priority = ''high'',
                  message = [Text ''Drink at least '', Fixed1 dw, Text ''L water today''],
                  action = [Text ''Drink water every '', Decimal (py_int (12 / dw)),
                            Text '' hours'']\<rparr>]))
     else Inr recs)"

definition aqi_block :: "advisory list \<Rightarrow> real \<Rightarrow> advisory list" where
  "aqi_block recs aqi_v =
    (if aqi_v > 200
     then recs @
       [\<lparr>category = ''air_quality'', priority = ''high'',
         message = [Text ''Poor air quality! Wear N95 mask outdoors''],
         action = [Text ''Use air purifier indoors, close windows'']\<rparr>]
     else if aqi_v > 100
     then recs @
       [\<lparr>category = ''air_quality'', priority = ''medium'',
         message = [Text ''Moderate pollution. Consider wearing mask''],
         action = [Text ''Reduce outdoor exercise'']\<rparr>]
     else recs)"

definition uv_block :: "advisory list \<Rightarrow> real \<Rightarrow> advisory list" where
  "uv_block recs uv =
    (if uv > 7
     then recs @
       [\<lparr>category = ''uv_protection'', priority = ''medium'',
         message = [Text ''High UV levels. Protect your skin''],
         action = [Text ''Use sunscreen SPF 30+, wear sunglasses'']\<rparr>]
     else recs)"

definition health_block :: "advisory list \<Rightarrow> user_profile \<Rightarrow> advisory list" where
  "health_block recs user_profile =
    (if has_health_conditions user_profile
     then recs @
       [\<lparr>category = ''health'', priority = ''high'',
         message = [Text ''Extra caution due to health conditions''],
         action = [Text ''Monitor symptoms closely, stay cool'']\<rparr>]
     else recs)"

definition age_block :: "advisory list \<Rightarrow> user_profile \<Rightarrow> advisory list" where
  "age_block recs user_profile =
    (if get_or (age user_profile) 0 > 60
     then recs @
       [\<lparr>category = ''health'', priority = ''high'',
         message = [Text ''Take extra care in extreme conditions''],
         action = [Text ''Stay indoors, keep emergency contacts ready'']\<rparr>]
     else recs)"

definition general_block :: "advisory list \<Rightarrow> real \<Rightarrow> advisory list" where
  "general_block recs risk_score =
    (if risk_score > 7
     then recs @
       [\<lparr>category = ''general'', priority = ''critical'',
         message = [Text ''VERY HIGH RISK! Minimize all outdoor activities''],
         action = [Text ''Stay indoors, seek medical help if feeling unwell'']\<rparr>]
     else recs)"

definition generate_recommendations ::
  "real \<Rightarrow> user_profile \<Rightarrow> weather_data \<Rightarrow> aqi_data \<Rightarrow> py_error + advisory list" where
  "generate_recommendations risk_score user_profile weather aqi_d =
    (let recs0 = [] in
     bind_err (getitem (temperature weather) ''temperature'') (\<lambda>temp.
     let recs1 = temperature_block recs0 temp in
     bind_err (hydration_block recs1 temp risk_score) (\<lambda>recs2.
     bind_err (getitem (aqi aqi_d) ''aqi'') (\<lambda>aqi_v.
     let recs3 = aqi_block recs2 aqi_v in
     bind_err (getitem (uv_index weather) ''uv_index'') (\<lambda>uv.
     let recs4 = uv_block recs3 uv;
         recs5 = health_block recs4 user_profile;
         recs6 = age_block recs5 user_profile;
         recs7 = general_block recs6 risk_score
     in Inr recs7)))))"

subsection \<open>Prediction (\<open>predict_risk\<close>)\<close>

text \<open>The dictionary returned by \<open>predict_risk\<close>.\<close>

record risk_assessment =
  risk_score :: real
  severity_level :: string
  recommendations :: "advisory list"
  timestamp :: string

text \<open>The list \<open>features\<close> built at the start of \<open>predict_risk\<close>, entry by entry.\<close>

definition extract_features ::
  "user_profile \<Rightarrow> weather_data \<Rightarrow> aqi_data \<Rightarrow> py_error + real list" where
  "extract_features user_profile weather aqi_d =
     bind_err (getitem (temperature weather) ''temperature'') (\<lambda>f0.
     bind_err (getitem (heat_index weather) ''heat_index'') (\<lambda>f1.
     bind_err (getitem (humidity weather) ''humidity'') (\<lambda>f2.
     bind_err (getitem (uv_index weather) ''uv_index'') (\<lambda>f3.
     bind_err (getitem (aqi aqi_d) ''aqi'') (\<lambda>f4.
     bind_err (getitem (pm2_5 aqi_d) ''pm2_5'') (\<lambda>f5.
     Inr [f0, f1, f2, f3, f4, f5,
          of_int (get_or (age user_profile) 30),
          get_or (outdoor_hours user_profile) 4,
          (if has_health_conditions user_profile then 1 else 0)]))))))"

text \<open>
  The fitted classifier and scaler are library objects, loaded from the model file or
  fitted at start-up; they are parameters here: \<open>scaler\<close> is \<open>self.scaler.transform\<close> and
  \<open>model\<close> is \<open>self.model.predict\<close>, each on one row.
\<close>

definition predict_risk ::
  "(real list \<Rightarrow> real) \<Rightarrow> (real list \<Rightarrow> real list) \<Rightarrow>
   user_profile \<Rightarrow> weather_data \<Rightarrow> aqi_data \<Rightarrow> py_error + risk_assessment" where
  "predict_risk model scaler user_profile weather aqi_d =
     bind_err (extract_features user_profile weather aqi_d) (\<lambda>features.
     let X_scaled = scaler features;
         score = model X_scaled;
         severity = get_severity_level score in
     bind_err (generate_recommendations score user_profile weather aqi_d) (\<lambda>recs.
     bind_err (getitem (weather_data.timestamp weather) ''timestamp'') (\<lambda>ts.
     Inr \<lparr>risk_score = score, severity_level = severity, recommendations = recs,
          timestamp = ts\<rparr>)))"

section \<open>Symptom triage: \<open>ml_model.py\<close>, class \<open>SymptomAnalyzer\<close>\<close>

text \<open>
  An alert is a dictionary with the keys \<open>level\<close>, \<open>message\<close> and \<open>action\<close>; the result of
  the analysis is a dictionary with the four keys below. A history entry is the dictionary
  of a stored symptom log, of which the analyzer reads the integer \<open>severity\<close> only, with
  \<open>get\<close> and the default 0; it is modelled by its integer-valued entries.
  Message texts are given without their leading pictograph, which is not ASCII.
\<close>

record alert =
  level :: string
  message :: string
  action :: string

record symptom_analysis =
  is_urgent :: bool
  alerts :: "alert list"
  recommendations :: "string list"
  analysis_timestamp :: "string option"

type_synonym symptom_log = "string \<rightharpoonup> int"

definition SEVERE_SYMPTOMS :: "string list" where
  "SEVERE_SYMPTOMS =
     [''chest_pain'', ''severe_headache'', ''difficulty_breathing'',
      ''confusion'', ''loss_of_consciousness'', ''severe_nausea'']"

definition get_symptom_recommendations :: "string list \<Rightarrow> int \<Rightarrow> string list" where
  "get_symptom_recommendations symptoms sev =
    (let recs0 = [];
         recs1 = (if ''headache'' \<in> set symptoms
                  then recs0 @ [''Rest in cool, dark room. Stay hydrated''] else recs0);
         recs2 = (if ''fatigue'' \<in> set symptoms \<or> ''dizziness'' \<in> set symptoms
                  then recs1 @ [''Drink water and electrolyte solution. Avoid exertion'']
                  else recs1);
         recs3 = (if ''breathing_difficulty'' \<in> set symptoms
                  then recs2 @ [''Stay in air-conditioned space. Avoid polluted areas'']
                  else recs2);
         recs4 = (if ''nausea'' \<in> set symptoms
                  then recs3 @ [''Sip water slowly. Eat light foods. Rest''] else recs3);
         recs5 = (if sev \<ge> 5
                  then recs4 @ [''Monitor temperature. Take rest. Stay cool''] else recs4)
     in recs5)"

text \<open>
  \<open>analyze_symptoms(symptoms, severity, user_history=None)\<close>. The body contains no
  \<open>raise\<close> and no operation that can fail on a list of strings, an integer and a list of
  logs, so every path reaches the \<open>return\<close>: the result is always \<open>Inr\<close>.
  \<open>user_history\<close> is \<open>None\<close> or a list, most recent log first; \<open>None\<close> and the empty
  list are both false in the test \<open>user_history and len(user_history) >= 3\<close>.
\<close>

definition analyze_symptoms ::
  "string list \<Rightarrow> int \<Rightarrow> symptom_log list option \<Rightarrow> py_error + symptom_analysis" where
  "analyze_symptoms symptoms sev user_history =
    (let alerts0 = [];
         urgent0 = False;
         severe_found = filter (\<lambda>s. s \<in> set SEVERE_SYMPTOMS) symptoms;
         (urgent1, alerts1) =
           (if severe_found \<noteq> []
            then (True, alerts0 @
                   [\<lparr>level = ''critical'',
                     message = ''URGENT: '' @ join '', '' severe_found @ '' detected'',
                     action = ''Seek immediate medical attention''\<rparr>])
            else (urgent0, alerts0));
         (urgent2, alerts2) =
           (if sev \<ge> 8
            then (True, alerts1 @
                   [\<lparr>level = ''high'',
                     message = ''High severity symptoms reported'',
                     action = ''Contact doctor or visit hospital''\<rparr>])
            else if sev \<ge> 6
            then (urgent1, alerts1 @
                   [\<lparr>level = ''medium'',
                     message = ''Moderate symptoms detected'',
                     action = ''Rest and monitor. Consult doctor if worsens''\<rparr>])
            else (urgent1, alerts1));
         alerts3 =
           (case user_history of
              None \<Rightarrow> alerts2
            | Some h \<Rightarrow>
                if h \<noteq> [] \<and> length h \<ge> 3
                then (let recent_severities = map (\<lambda>log. dict_get log ''severity'' 0) (take 3 h)
                      in if list_all (\<lambda>s. s \<ge> 5) recent_severities
                         then alerts2 @
                           [\<lparr>level = ''high'',
                             message = ''Persistent symptoms detected'',
                             action = ''Schedule medical checkup''\<rparr>]
                         else alerts2)
                else alerts2);
         recs = get_symptom_recommendations symptoms sev
     in Inr \<lparr>is_urgent = urgent2, alerts = alerts3, recommendations = recs,
              analysis_timestamp = None\<rparr>)"

section \<open>The specification's formulations, for comparison with the code\<close>

text \<open>
  The heat index as the specification writes it: the nine-term polynomial with squares
  and subtractions, rounded to one decimal place.
\<close>

definition spec_heatIndex :: "real \<Rightarrow> real \<Rightarrow> real" where
  "spec_heatIndex T RH =
    (if T < 27 then T
     else py_round1
       (- 8.78469475556 + 1.61139411 * T + 2.33854883889 * RH - 0.14611605 * T * RH
        - 0.012308094 * T\<^sup>2 - 0.0164248277778 * RH\<^sup>2 + 0.002211732 * T\<^sup>2 * RH
        + 0.00072546 * T * RH\<^sup>2 - 0.000003582 * T\<^sup>2 * RH\<^sup>2))"

text \<open>
  The label rule as the specification writes it, on a row in the order of the feature
  vector (temperature, heat index, humidity, uv, aqi, pm2.5, age, outdoor hours, health
  condition): the sum of five contributions, and the label clipped to the interval from
  0 to 10.
\<close>

definition spec_rule_score :: "real list \<Rightarrow> int" where
  "spec_rule_score x =
    (let t = x ! 0; uv = x ! 3; q = x ! 4; ag = x ! 6; oh = x ! 7; hc = x ! 8
     in (if t > 40 then 3 else if t > 35 then 2 else if t > 32 then 1 else 0) +
        (if q > 300 then 3 else if q > 200 then 2 else if q > 100 then 1 else 0) +
        (if uv > 8 then 1 else 0) +
        (if ag > 60 \<or> hc = 1 then 1 else 0) +
        (if oh > 6 then 1 else 0))"

definition spec_label :: "real list \<Rightarrow> int \<Rightarrow> int" where
  "spec_label x p = max 0 (min 10 (spec_rule_score x + p))"

text \<open>
  The rule table of the recommendation generator as the specification lists it: seven
  rules in order, each yielding at most one advisory, given here by category and priority.
  The arguments are the risk score, whether the profile has health conditions, the age if
  the profile has one, the temperature, the aqi and the uv index.
\<close>

definition option_list :: "'a option \<Rightarrow> 'a list" where
  "option_list x = (case x of None \<Rightarrow> [] | Some v \<Rightarrow> [v])"

definition spec_rules ::
  "real \<Rightarrow> bool \<Rightarrow> int option \<Rightarrow> real \<Rightarrow> real \<Rightarrow> real \<Rightarrow> (string \<times> string) option list" where
  "spec_rules r hc ag t q u =
    [if t > 40 then Some (''heat'', ''high'')
     else if t > 35 then Some (''heat'', ''medium'') else None,
     if t > 32 \<or> r > 3 then Some (''hydration'', ''high'') else None,
     if q > 200 then Some (''air_quality'', ''high'')
     else if q > 100 then Some (''air_quality'', ''medium'') else None,
     if u > 7 then Some (''uv_protection'', ''medium'') else None,
     if hc then Some (''health'', ''high'') else None,
     (case ag of None \<Rightarrow> None | Some n \<Rightarrow> if n > 60 then Some (''health'', ''high'') else None),
     if r > 7 then Some (''general'', ''critical'') else None]"

definition spec_recommend ::
  "real \<Rightarrow> bool \<Rightarrow> int option \<Rightarrow> real \<Rightarrow> real \<Rightarrow> real \<Rightarrow> (string \<times> string) list" where
  "spec_recommend r hc ag t q u = concat (map option_list (spec_rules r hc ag t q u))"

text \<open>The advisories the hydration block appends (none where it raises).\<close>

definition hydration_part :: "real \<Rightarrow> real \<Rightarrow> advisory list" where
  "hydration_part t r = (case hydration_block [] t r of Inl e \<Rightarrow> [] | Inr v \<Rightarrow> v)"

abbreviation (input) category_priority :: "advisory \<Rightarrow> string \<times> string" where
  "category_priority \<equiv> (\<lambda>adv. (category adv, priority adv))"

section \<open>Properties of the symptom triage\<close>

lemma analyze_symptoms_returns:
  "\<exists>r. analyze_symptoms symptoms sev h = Inr r"
  by (simp add: analyze_symptoms_def Let_def split: prod.splits)

lemma analyze_symptoms_urgent:
  "analyze_symptoms symptoms sev h = Inr r \<Longrightarrow>
   is_urgent r = (set symptoms \<inter> set SEVERE_SYMPTOMS \<noteq> {} \<or> sev \<ge> 8)"
  by (auto simp: analyze_symptoms_def Let_def filter_empty_conv split: if_splits)

lemma analyze_symptoms_medium:
  "analyze_symptoms symptoms sev h = Inr r \<Longrightarrow> 6 \<le> sev \<Longrightarrow> sev \<le> 7 \<Longrightarrow>
   \<lparr>level = ''medium'', message = ''Moderate symptoms detected'',
    action = ''Rest and monitor. Consult doctor if worsens''\<rparr> \<in> set (alerts r)"
  by (auto simp: analyze_symptoms_def Let_def split: if_splits option.splits)

lemma analyze_symptoms_persistent:
  "analyze_symptoms symptoms sev (Some h) = Inr r \<Longrightarrow> length h \<ge> 3 \<Longrightarrow>
   list_all (\<lambda>log. dict_get log ''severity'' 0 \<ge> 5) (take 3 h) \<Longrightarrow>
   \<lparr>level = ''high'', message = ''Persistent symptoms detected'',
    action = ''Schedule medical checkup''\<rparr> \<in> set (alerts r)"
  by (auto simp: analyze_symptoms_def Let_def list_all_iff split: if_splits)

lemma length_get_symptom_recommendations:
  "length (get_symptom_recommendations symptoms sev) \<le> 5"
  by (simp add: get_symptom_recommendations_def Let_def)

lemma analyze_symptoms_shape:
  "analyze_symptoms symptoms sev h = Inr r \<Longrightarrow>
   length (alerts r) \<le> 3 \<and> length (recommendations r) \<le> 5 \<and> analysis_timestamp r = None"
  using length_get_symptom_recommendations [of symptoms sev]
  by (auto simp: analyze_symptoms_def Let_def split: if_splits option.splits)

text \<open>
  Claim C1. For every symptom list, every severity from 1 to 10 and every optional history,
  \<open>analyze_symptoms\<close> returns \<open>is_urgent = True\<close> if and only if some reported symptom is
  in the fixed severe-symptom set or the severity is at least 8. The medium alert of
  severities 6 and 7 and the persistent-symptoms alert of the history rule are emitted
  without touching the flag: they are in the alert list whatever the flag is.
\<close>

theorem analyze_symptoms_is_urgent_iff:
  assumes "1 \<le> sev" and "sev \<le> 10"
  shows "\<exists>r. analyze_symptoms symptoms sev user_history = Inr r \<and>
           (is_urgent r \<longleftrightarrow> set symptoms \<inter> set SEVERE_SYMPTOMS \<noteq> {} \<or> sev \<ge> 8) \<and>
           (6 \<le> sev \<and> sev \<le> 7 \<longrightarrow>
              \<lparr>level = ''medium'', message = ''Moderate symptoms detected'',
               action = ''Rest and monitor. Consult doctor if worsens''\<rparr> \<in> set (alerts r)) \<and>
           (\<forall>h. user_history = Some h \<and> length h \<ge> 3 \<and>
                list_all (\<lambda>log. dict_get log ''severity'' 0 \<ge> 5) (take 3 h) \<longrightarrow>
              \<lparr>level = ''high'', message = ''Persistent symptoms detected'',
               action = ''Schedule medical checkup''\<rparr> \<in> set (alerts r))"
proof -
  obtain r where r: "analyze_symptoms symptoms sev user_history = Inr r"
    using analyze_symptoms_returns by blast
  have "is_urgent r \<longleftrightarrow> set symptoms \<inter> set SEVERE_SYMPTOMS \<noteq> {} \<or> sev \<ge> 8"
    using analyze_symptoms_urgent [OF r] by simp
  moreover have "6 \<le> sev \<and> sev \<le> 7 \<longrightarrow>
      \<lparr>level = ''medium'', message = ''Moderate symptoms detected'',
       action = ''Rest and monitor. Consult doctor if worsens''\<rparr> \<in> set (alerts r)"
    using analyze_symptoms_medium [OF r] by simp
  moreover have "\<forall>h. user_history = Some h \<and> length h \<ge> 3 \<and>
        list_all (\<lambda>log. dict_get log ''severity'' 0 \<ge> 5) (take 3 h) \<longrightarrow>
      \<lparr>level = ''high'', message = ''Persistent symptoms detected'',
       action = ''Schedule medical checkup''\<rparr> \<in> set (alerts r)"
    using analyze_symptoms_persistent r by blast
  ultimately show ?thesis using r by blast
qed

text \<open>
  The theorem at severity 7 with an ordinary symptom and three recent logs of severities
  6, 7 and 5: both non-urgent alerts are emitted and the flag stays false.
\<close>

theorem analyze_symptoms_is_urgent_iff_witness:
  "(1::int) \<le> 7 \<and> (7::int) \<le> 10 \<and>
   (\<exists>r. analyze_symptoms [''headache''] 7
          (Some [[''severity'' \<mapsto> 6], [''severity'' \<mapsto> 7], [''severity'' \<mapsto> 5]]) = Inr r \<and>
        \<not> is_urgent r \<and>
        \<lparr>level = ''medium'', message = ''Moderate symptoms detected'',
         action = ''Rest and monitor. Consult doctor if worsens''\<rparr> \<in> set (alerts r) \<and>
        \<lparr>level = ''high'', message = ''Persistent symptoms detected'',
         action = ''Schedule medical checkup''\<rparr> \<in> set (alerts r))"
  using analyze_symptoms_is_urgent_iff
    [of 7 "[''headache'']"
        "Some [[''severity'' \<mapsto> 6], [''severity'' \<mapsto> 7], [''severity'' \<mapsto> 5]]"]
  by (simp add: SEVERE_SYMPTOMS_def dict_get_def)

text \<open>
  Claim C8, as the code has it. The claim says that a severity outside 1..10 is rejected
  with a validation error. \<open>analyze_symptoms\<close> has no range check: at severity 0 and at
  severity 11 it returns an analysis like at any other severity.
\<close>

theorem analyze_symptoms_out_of_range_returns:
  "analyze_symptoms [] 0 None =
     Inr \<lparr>is_urgent = False, alerts = [], recommendations = [], analysis_timestamp = None\<rparr> \<and>
   analyze_symptoms [] 11 None =
     Inr \<lparr>is_urgent = True,
          alerts = [\<lparr>level = ''high'', message = ''High severity symptoms reported'',
                     action = ''Contact doctor or visit hospital''\<rparr>],
          recommendations = [''Monitor temperature. Take rest. Stay cool''],
          analysis_timestamp = None\<rparr>"
  by (simp add: analyze_symptoms_def get_symptom_recommendations_def Let_def)

text \<open>
  Claim C8, amended. For every symptom list, every integer severity (inside 1..10 or not)
  and every optional history, \<open>analyze_symptoms\<close> raises no error: it returns an analysis
  with at most three alerts and at most five text recommendations (none where no rule
  matches) and an unset timestamp.
\<close>

theorem analyze_symptoms_never_fails:
  "\<exists>r. analyze_symptoms symptoms sev user_history = Inr r \<and>
       length (alerts r) \<le> 3 \<and> length (recommendations r) \<le> 5 \<and>
       analysis_timestamp r = None"
  using analyze_symptoms_returns [of symptoms sev user_history] analyze_symptoms_shape
  by blast

section \<open>Properties of the heat index\<close>

text \<open>
  Claim C3. For every temperature and humidity, \<open>_calculate_heat_index\<close> returns the
  temperature unchanged when it is below 27, and otherwise the nine-term polynomial of the
  specification, with its coefficients, rounded to one decimal place. The function is total:
  it has no failing branch. (Floats are exact reals here.)
\<close>

theorem calculate_heat_index_spec:
  "calculate_heat_index T RH = spec_heatIndex T RH \<and>
   (T < 27 \<longrightarrow> calculate_heat_index T RH = T)"
  by (simp add: calculate_heat_index_def spec_heatIndex_def Let_def power2_eq_square
      algebra_simps)

text \<open>Below the threshold at 20 degrees, and the polynomial at 38.5 degrees and 65 percent.\<close>

theorem calculate_heat_index_spec_witness:
  "(20::real) < 27 \<and> calculate_heat_index 20 50 = 20 \<and> spec_heatIndex 38.5 65 = 60.6"
  using calculate_heat_index_spec [of 20 50] calculate_heat_index_spec [of "38.5" 65]
  by (simp add: calculate_heat_index_def Let_def py_round1_def round_half_even_def)

section \<open>Properties of the risk model\<close>

subsection \<open>Severity bands\<close>

text \<open>
  Claim C2. For every risk score from 0 to 10, \<open>_get_severity_level\<close> returns Low up to
  and including 2, Moderate above 2 up to and including 5, High above 5 up to and including
  7, and Very High above 7.
\<close>

theorem get_severity_level_bands:
  assumes "0 \<le> s" and "s \<le> 10"
  shows "(s \<le> 2 \<longrightarrow> get_severity_level s = ''Low'') \<and>
         (2 < s \<and> s \<le> 5 \<longrightarrow> get_severity_level s = ''Moderate'') \<and>
         (5 < s \<and> s \<le> 7 \<longrightarrow> get_severity_level s = ''High'') \<and>
         (7 < s \<longrightarrow> get_severity_level s = ''Very High'')"
  by (simp add: get_severity_level_def)

text \<open>The boundaries 2, 5 and 7 belong to the lower band; 8 is Very High.\<close>

theorem get_severity_level_bands_witness:
  "get_severity_level 2 = ''Low'' \<and> get_severity_level 5 = ''Moderate'' \<and>
   get_severity_level 7 = ''High'' \<and> get_severity_level 8 = ''Very High''"
  using get_severity_level_bands [of 2] get_severity_level_bands [of 5]
    get_severity_level_bands [of 7] get_severity_level_bands [of 8]
  by simp

subsection \<open>Training labels\<close>

lemma rule_risk_spec: "rule_risk x = spec_rule_score x"
  by (simp add: rule_risk_def spec_rule_score_def Let_def)

lemma rule_risk_bounds: "0 \<le> rule_risk x \<and> rule_risk x \<le> 9"
  by (simp add: rule_risk_def Let_def)

lemma train_label_bounds:
  "p \<in> {- 1, 0, 1} \<Longrightarrow> - 1 \<le> train_label x p \<and> train_label x p \<le> 10"
  using rule_risk_bounds [of x] by (auto simp: train_label_def)

lemma train_label_spec:
  "0 \<le> rule_risk x + p \<Longrightarrow> train_label x p = spec_label x p"
  by (simp add: train_label_def spec_label_def rule_risk_spec)

lemma y_train_bounds:
  assumes "\<forall>i. draw i \<in> {- 1, 0, 1}" and "y \<in> set (y_train X draw)"
  shows "- 1 \<le> y \<and> y \<le> 10"
proof -
  obtain i where "y = train_label (X ! i) (draw i)"
    using assms(2) by (auto simp: y_train_def)
  then show ?thesis using train_label_bounds assms(1) by blast
qed

text \<open>
  Claim C6, where the code departs from it. The label is \<open>min(10, risk + perturbation)\<close>:
  it is bounded above only. For a row on which no rule adds anything (temperature 25,
  aqi 80, uv 5, age 30, no health condition, 3 outdoor hours) and the perturbation -1, the
  loop stores the label -1, where clipping to the interval from 0 to 10 gives 0.
\<close>

theorem train_label_below_zero:
  "y_train [[25, 30, 50, 5, 80, 40, 30, 3, 0]] (\<lambda>i. - 1) = [- 1] \<and>
   spec_label [25, 30, 50, 5, 80, 40, 30, 3, 0] (- 1) = 0"
  by (simp add: y_train_def train_label_def rule_risk_def spec_label_def spec_rule_score_def
      Let_def)

subsection \<open>Recommendations: what each block appends\<close>

lemma temperature_block_append: "temperature_block recs t = recs @ temperature_block [] t"
  by (simp add: temperature_block_def)

lemma aqi_block_append: "aqi_block recs q = recs @ aqi_block [] q"
  by (simp add: aqi_block_def)

lemma uv_block_append: "uv_block recs u = recs @ uv_block [] u"
  by (simp add: uv_block_def)

lemma health_block_append: "health_block recs p = recs @ health_block [] p"
  by (simp add: health_block_def)

lemma age_block_append: "age_block recs p = recs @ age_block [] p"
  by (simp add: age_block_def)

lemma general_block_append: "general_block recs r = recs @ general_block [] r"
  by (simp add: general_block_def)

lemma hydration_block_append:
  "daily_water r \<noteq> 0 \<Longrightarrow> hydration_block recs t r = Inr (recs @ hydration_part t r)"
  by (simp add: hydration_block_def hydration_part_def Let_def)

lemma generate_recommendations_blocks:
  assumes "temperature w = Some t" and "aqi a = Some q" and "uv_index w = Some u"
    and "daily_water r \<noteq> 0"
  shows "generate_recommendations r p w a =
     Inr (temperature_block [] t @ hydration_part t r @ aqi_block [] q @ uv_block [] u @
          health_block [] p @ age_block [] p @ general_block [] r)"
proof -
  have "generate_recommendations r p w a =
     Inr (general_block (age_block (health_block (uv_block (aqi_block
            (temperature_block [] t @ hydration_part t r) q) u) p) p) r)"
    using assms
    by (simp add: generate_recommendations_def bind_err_def getitem_def Let_def
        hydration_block_append [OF assms(4)])
  also have "\<dots> =
     Inr (temperature_block [] t @ hydration_part t r @ aqi_block [] q @ uv_block [] u @
          health_block [] p @ age_block [] p @ general_block [] r)"
    by (metis (no_types) append.assoc general_block_append age_block_append
        health_block_append uv_block_append aqi_block_append)
  finally show ?thesis .
qed

lemma generate_recommendations_no_division_error:
  assumes "daily_water r \<noteq> 0"
  shows "generate_recommendations r p w a \<noteq> Inl ZeroDivisionError"
  by (simp add: generate_recommendations_def bind_err_def getitem_def Let_def
      hydration_block_append [OF assms] split: option.splits)

subsection \<open>Recommendations: categories and priorities\<close>

lemma rule_temperature:
  "map category_priority (temperature_block [] t) =
   option_list (if t > 40 then Some (''heat'', ''high'')
                else if t > 35 then Some (''heat'', ''medium'') else None)"
  by (simp add: temperature_block_def option_list_def)

lemma rule_hydration:
  "daily_water r \<noteq> 0 \<Longrightarrow>
   map category_priority (hydration_part t r) =
   option_list (if t > 32 \<or> r > 3 then Some (''hydration'', ''high'') else None)"
  by (simp add: hydration_part_def hydration_block_def option_list_def Let_def)

lemma rule_aqi:
  "map category_priority (aqi_block [] q) =
   option_list (if q > 200 then Some (''air_quality'', ''high'')
                else if q > 100 then Some (''air_quality'', ''medium'') else None)"
  by (simp add: aqi_block_def option_list_def)

lemma rule_uv:
  "map category_priority (uv_block [] u) =
   option_list (if u > 7 then Some (''uv_protection'', ''medium'') else None)"
  by (simp add: uv_block_def option_list_def)

lemma rule_health:
  "map category_priority (health_block [] p) =
   option_list (if has_health_conditions p then Some (''health'', ''high'') else None)"
  by (simp add: health_block_def option_list_def)

lemma rule_age:
  "map category_priority (age_block [] p) =
   option_list (case age p of None \<Rightarrow> None
                | Some n \<Rightarrow> if n > 60 then Some (''health'', ''high'') else None)"
  by (simp add: age_block_def option_list_def get_or_def split: option.splits)

lemma rule_general:
  "map category_priority (general_block [] r) =
   option_list (if r > 7 then Some (''general'', ''critical'') else None)"
  by (simp add: general_block_def option_list_def)

lemma rules_all:
  assumes "daily_water r \<noteq> 0"
  shows "map category_priority
           (temperature_block [] t @ hydration_part t r @ aqi_block [] q @ uv_block [] u @
            health_block [] p @ age_block [] p @ general_block [] r) =
         spec_recommend r (has_health_conditions p) (age p) t q u"
  unfolding spec_recommend_def spec_rules_def map_append rule_temperature
    rule_hydration [OF assms] rule_aqi rule_uv rule_health rule_age rule_general
  by (simp only: list.map concat.simps append_Nil2)

lemma category_temperature: "subseq (map category (temperature_block [] t)) [''heat'']"
  by (simp add: temperature_block_def)

lemma category_hydration: "subseq (map category (hydration_part t r)) [''hydration'']"
  by (simp add: hydration_part_def hydration_block_def Let_def)

lemma category_aqi: "subseq (map category (aqi_block [] q)) [''air_quality'']"
  by (simp add: aqi_block_def)

lemma category_uv: "subseq (map category (uv_block [] u)) [''uv_protection'']"
  by (simp add: uv_block_def)

lemma category_health: "subseq (map category (health_block [] p)) [''health'']"
  by (simp add: health_block_def)

lemma category_age: "subseq (map category (age_block [] p)) [''health'']"
  by (simp add: age_block_def)

lemma category_general: "subseq (map category (general_block [] r)) [''general'']"
  by (simp add: general_block_def)

lemma categories_all:
  "subseq (map category (temperature_block [] t @ hydration_part t r @ aqi_block [] q @
       uv_block [] u @ health_block [] p @ age_block [] p @ general_block [] r))
     [''heat'', ''hydration'', ''air_quality'', ''uv_protection'', ''health'', ''health'',
      ''general'']"
proof -
  have "subseq (map category (temperature_block [] t) @ map category (hydration_part t r) @
       map category (aqi_block [] q) @ map category (uv_block [] u) @
       map category (health_block [] p) @ map category (age_block [] p) @
       map category (general_block [] r))
     ([''heat''] @ [''hydration''] @ [''air_quality''] @ [''uv_protection''] @ [''health''] @
      [''health''] @ [''general''])"
    by (intro list_emb_append_mono category_temperature category_hydration category_aqi
        category_uv category_health category_age category_general)
  then show ?thesis by simp
qed

lemma first_when_hot:
  "t > 40 \<Longrightarrow> hd (map category_priority (temperature_block [] t @ rest)) = (''heat'', ''high'')"
  by (simp add: temperature_block_def)

lemma last_when_very_high:
  "r > 7 \<Longrightarrow>
   last (map category_priority (a @ b @ c @ d @ e @ f @ general_block [] r)) =
     (''general'', ''critical'')"
  by (simp add: general_block_def)

lemma blocks_extend:
  assumes "daily_water r \<noteq> 0"
  shows "prefix rs (temperature_block rs t) \<and>
         length (temperature_block rs t) \<le> Suc (length rs) \<and>
         (\<exists>rs'. hydration_block rs t r = Inr rs' \<and> prefix rs rs' \<and>
                length rs' \<le> Suc (length rs)) \<and>
         prefix rs (aqi_block rs q) \<and> length (aqi_block rs q) \<le> Suc (length rs) \<and>
         prefix rs (uv_block rs u) \<and> length (uv_block rs u) \<le> Suc (length rs) \<and>
         prefix rs (health_block rs p) \<and> length (health_block rs p) \<le> Suc (length rs) \<and>
         prefix rs (age_block rs p) \<and> length (age_block rs p) \<le> Suc (length rs) \<and>
         prefix rs (general_block rs r) \<and> length (general_block rs r) \<le> Suc (length rs)"
  using assms
  by (simp add: temperature_block_def hydration_block_def aqi_block_def uv_block_def
      health_block_def age_block_def general_block_def Let_def)

text \<open>
  Claim C4. For every risk score, profile, weather reading and air-quality reading
  (readings with the fields the rules read, and a risk score with a positive daily water
  amount, which every score from -1 upwards has), the generator returns the outputs of
  its seven rules in the documented order: the categories and priorities of the result are
  those of the rule table, one advisory per matched rule, so the categories are a
  subsequence of heat, hydration, air_quality, uv_protection, health, health, general.
  Above 40 degrees the first advisory is the heat advisory with priority high; above risk
  score 7 the last one is the general advisory with priority critical. Each of the seven
  blocks returns the list it was given, unchanged, followed by at most one advisory.
\<close>

theorem generate_recommendations_rule_order:
  assumes "temperature w = Some t" and "aqi a = Some q" and "uv_index w = Some u"
    and "0 < daily_water r"
  shows "(\<exists>recs. generate_recommendations r p w a = Inr recs \<and>
           map (\<lambda>adv. (category adv, priority adv)) recs =
             spec_recommend r (has_health_conditions p) (age p) t q u \<and>
           subseq (map category recs)
             [''heat'', ''hydration'', ''air_quality'', ''uv_protection'', ''health'',
              ''health'', ''general''] \<and>
           (t > 40 \<longrightarrow>
              hd (map (\<lambda>adv. (category adv, priority adv)) recs) = (''heat'', ''high'')) \<and>
           (r > 7 \<longrightarrow>
              last (map (\<lambda>adv. (category adv, priority adv)) recs) =
                (''general'', ''critical''))) \<and>
         (\<forall>rs. prefix rs (temperature_block rs t) \<and>
               length (temperature_block rs t) \<le> Suc (length rs) \<and>
               (\<exists>rs'. hydration_block rs t r = Inr rs' \<and> prefix rs rs' \<and>
                      length rs' \<le> Suc (length rs)) \<and>
               prefix rs (aqi_block rs q) \<and> length (aqi_block rs q) \<le> Suc (length rs) \<and>
               prefix rs (uv_block rs u) \<and> length (uv_block rs u) \<le> Suc (length rs) \<and>
               prefix rs (health_block rs p) \<and>
               length (health_block rs p) \<le> Suc (length rs) \<and>
               prefix rs (age_block rs p) \<and> length (age_block rs p) \<le> Suc (length rs) \<and>
               prefix rs (general_block rs r) \<and>
               length (general_block rs r) \<le> Suc (length rs))"
proof -
  have dw: "daily_water r \<noteq> 0" using assms(4) by simp
  let ?recs = "temperature_block [] t @ hydration_part t r @ aqi_block [] q @ uv_block [] u @
          health_block [] p @ age_block [] p @ general_block [] r"
  have "generate_recommendations r p w a = Inr ?recs"
    by (rule generate_recommendations_blocks [OF assms(1-3) dw])
  moreover have "map category_priority ?recs =
      spec_recommend r (has_health_conditions p) (age p) t q u"
    by (rule rules_all [OF dw])
  moreover have "subseq (map category ?recs)
             [''heat'', ''hydration'', ''air_quality'', ''uv_protection'', ''health'',
              ''health'', ''general'']"
    by (rule categories_all)
  moreover have "t > 40 \<longrightarrow> hd (map category_priority ?recs) = (''heat'', ''high'')"
    using first_when_hot by blast
  moreover have "r > 7 \<longrightarrow> last (map category_priority ?recs) = (''general'', ''critical'')"
    using last_when_very_high by blast
  ultimately have order: "\<exists>recs. generate_recommendations r p w a = Inr recs \<and>
           map category_priority recs =
             spec_recommend r (has_health_conditions p) (age p) t q u \<and>
           subseq (map category recs)
             [''heat'', ''hydration'', ''air_quality'', ''uv_protection'', ''health'',
              ''health'', ''general''] \<and>
           (t > 40 \<longrightarrow> hd (map category_priority recs) = (''heat'', ''high'')) \<and>
           (r > 7 \<longrightarrow> last (map category_priority recs) = (''general'', ''critical''))"
    by blast
  show ?thesis
    by (rule conjI [OF order allI]) (rule blocks_extend [OF dw])
qed

text \<open>
  The theorem on the example of the specification: 42 degrees, aqi 220, uv 9, age 65,
  a health condition and risk score 8 give all seven advisories.
\<close>

theorem generate_recommendations_rule_order_witness:
  "\<exists>recs. generate_recommendations 8
       \<lparr>age = Some 65, outdoor_hours = Some 6, health_conditions = Some [''asthma'']\<rparr>
       \<lparr>temperature = Some 42, heat_index = Some 48, humidity = Some 70, uv_index = Some 9,
        timestamp = Some ''2024-01-01T12:00:00''\<rparr>
       \<lparr>aqi = Some 220, pm2_5 = Some 95\<rparr> = Inr recs \<and>
     map (\<lambda>adv. (category adv, priority adv)) recs =
       [(''heat'', ''high''), (''hydration'', ''high''), (''air_quality'', ''high''),
        (''uv_protection'', ''medium''), (''health'', ''high''), (''health'', ''high''),
        (''general'', ''critical'')] \<and>
     subseq (map category recs)
       [''heat'', ''hydration'', ''air_quality'', ''uv_protection'', ''health'', ''health'',
        ''general''] \<and>
     hd (map (\<lambda>adv. (category adv, priority adv)) recs) = (''heat'', ''high'') \<and>
     last (map (\<lambda>adv. (category adv, priority adv)) recs) = (''general'', ''critical'')"
  using generate_recommendations_rule_order
    [of "\<lparr>temperature = Some 42, heat_index = Some 48, humidity = Some 70, uv_index = Some 9,
          timestamp = Some ''2024-01-01T12:00:00''\<rparr>" 42
        "\<lparr>aqi = Some 220, pm2_5 = Some 95\<rparr>" 220 9 8
        "\<lparr>age = Some 65, outdoor_hours = Some 6, health_conditions = Some [''asthma'']\<rparr>"]
  by (simp add: daily_water_def spec_recommend_def spec_rules_def option_list_def
      has_health_conditions_def)

subsection \<open>The hydration advisory\<close>

lemma py_int_floor: "0 < x \<Longrightarrow> py_int x = \<lfloor>x\<rfloor>"
  by (simp add: py_int_def)

lemma hydration_only:
  assumes "0 < daily_water r"
  shows "filter (\<lambda>adv. category adv = ''hydration'')
      (temperature_block [] t @ hydration_part t r @ aqi_block [] q @ uv_block [] u @
          health_block [] p @ age_block [] p @ general_block [] r) =
     (if t > 32 \<or> r > 3
      then [\<lparr>category = ''hydration'', priority = ''high'',
             message = [Text ''Drink at least '', Fixed1 (3.5 + 0.3 * r), Text ''L water today''],
             action = [Text ''Drink water every '', Decimal \<lfloor>12 / (3.5 + 0.3 * r)\<rfloor>,
                       Text '' hours'']\<rparr>]
      else [])"
proof -
  have "0 < 12 / daily_water r" using assms by simp
  then have "py_int (12 / daily_water r) = \<lfloor>12 / daily_water r\<rfloor>" by (rule py_int_floor)
  moreover have "daily_water r = 3.5 + 0.3 * r" by (simp add: daily_water_def)
  ultimately show ?thesis using assms
    by (simp add: temperature_block_def hydration_part_def hydration_block_def aqi_block_def
        uv_block_def health_block_def age_block_def general_block_def Let_def)
qed

text \<open>
  Claim C5. The result holds a hydration advisory exactly when the temperature is above 32
  or the risk score is above 3; there is then one, with priority high, the daily water
  amount 3.5 + 0.3 * riskScore in its message and floor(12 / dailyWater) hours in its
  action. (Readings with the fields the rules read; a risk score with a positive daily
  water amount, which every score from -1 upwards has: the code truncates the quotient,
  which is the floor of a positive number.)
\<close>

theorem hydration_advisory_rule:
  assumes "temperature w = Some t" and "aqi a = Some q" and "uv_index w = Some u"
    and "0 < daily_water r"
  shows "\<exists>recs. generate_recommendations r p w a = Inr recs \<and>
           filter (\<lambda>adv. category adv = ''hydration'') recs =
             (if t > 32 \<or> r > 3
              then [\<lparr>category = ''hydration'', priority = ''high'',
                     message = [Text ''Drink at least '', Fixed1 (3.5 + 0.3 * r),
                                Text ''L water today''],
                     action = [Text ''Drink water every '',
                               Decimal \<lfloor>12 / (3.5 + 0.3 * r)\<rfloor>, Text '' hours'']\<rparr>]
              else [])"
proof -
  have dw: "daily_water r \<noteq> 0" using assms(4) by simp
  show ?thesis
    unfolding generate_recommendations_blocks [OF assms(1-3) dw]
    using hydration_only [OF assms(4)] by blast
qed

text \<open>
  The theorem at 30 degrees and risk score 8 (5.9 litres, every 2 hours), and at
  30 degrees and risk score 3, where the rule does not fire.
\<close>

theorem hydration_advisory_rule_witness:
  "(\<exists>recs. generate_recommendations 8 \<lparr>age = None, outdoor_hours = None, health_conditions = None\<rparr>
       \<lparr>temperature = Some 30, heat_index = Some 31, humidity = Some 50, uv_index = Some 5,
        timestamp = Some ''2024-01-01T12:00:00''\<rparr>
       \<lparr>aqi = Some 80, pm2_5 = Some 30\<rparr> = Inr recs \<and>
     filter (\<lambda>adv. category adv = ''hydration'') recs =
       [\<lparr>category = ''hydration'', priority = ''high'',
         message = [Text ''Drink at least '', Fixed1 5.9, Text ''L water today''],
         action = [Text ''Drink water every '', Decimal 2, Text '' hours'']\<rparr>]) \<and>
   (\<exists>recs. generate_recommendations 3 \<lparr>age = None, outdoor_hours = None, health_conditions = None\<rparr>
       \<lparr>temperature = Some 30, heat_index = Some 31, humidity = Some 50, uv_index = Some 5,
        timestamp = Some ''2024-01-01T12:00:00''\<rparr>
       \<lparr>aqi = Some 80, pm2_5 = Some 30\<rparr> = Inr recs \<and>
     filter (\<lambda>adv. category adv = ''hydration'') recs = [])"
  using hydration_advisory_rule
    [of "\<lparr>temperature = Some 30, heat_index = Some 31, humidity = Some 50, uv_index = Some 5,
          timestamp = Some ''2024-01-01T12:00:00''\<rparr>" 30
        "\<lparr>aqi = Some 80, pm2_5 = Some 30\<rparr>" 80 5 8
        "\<lparr>age = None, outdoor_hours = None, health_conditions = None\<rparr>"]
    hydration_advisory_rule
    [of "\<lparr>temperature = Some 30, heat_index = Some 31, humidity = Some 50, uv_index = Some 5,
          timestamp = Some ''2024-01-01T12:00:00''\<rparr>" 30
        "\<lparr>aqi = Some 80, pm2_5 = Some 30\<rparr>" 80 5 3
        "\<lparr>age = None, outdoor_hours = None, health_conditions = None\<rparr>"]
  by (simp add: daily_water_def)

subsection \<open>The divisor of the interval hint\<close>

text \<open>
  Claim C10. Every training label lies between -1 and 10 (the rule score is between 0 and
  9, the perturbation is -1, 0 or 1, and the sum is cut at 10), and for every risk score
  in that interval the divisor \<open>daily_water\<close> is at least 3.2: the hydration block and
  with it the whole generator never raise the division error.
\<close>

theorem daily_water_positive:
  "(pt \<in> {- 1, 0, 1} \<longrightarrow>
      - 1 \<le> train_label x pt \<and> train_label x pt \<le> 10 \<and>
      3.2 \<le> daily_water (of_int (train_label x pt))) \<and>
   ((\<forall>i. draw i \<in> {- 1, 0, 1}) \<longrightarrow> (\<forall>y \<in> set (y_train X draw). - 1 \<le> y \<and> y \<le> 10)) \<and>
   (- 1 \<le> r \<and> r \<le> 10 \<longrightarrow>
      3.2 \<le> daily_water r \<and>
      hydration_block recs t r \<noteq> Inl ZeroDivisionError \<and>
      generate_recommendations r p w a \<noteq> Inl ZeroDivisionError)"
proof -
  have lab: "pt \<in> {- 1, 0, 1} \<longrightarrow>
      - 1 \<le> train_label x pt \<and> train_label x pt \<le> 10 \<and>
      3.2 \<le> daily_water (of_int (train_label x pt))"
  proof
    assume "pt \<in> {- 1, 0, 1}"
    then have b: "- 1 \<le> train_label x pt \<and> train_label x pt \<le> 10"
      by (rule train_label_bounds)
    then have "(- 1 :: real) \<le> of_int (train_label x pt)" by linarith
    then have "3.2 \<le> daily_water (of_int (train_label x pt))"
      by (simp add: daily_water_def)
    with b show "- 1 \<le> train_label x pt \<and> train_label x pt \<le> 10 \<and>
      3.2 \<le> daily_water (of_int (train_label x pt))" by simp
  qed
  have ys: "(\<forall>i. draw i \<in> {- 1, 0, 1}) \<longrightarrow> (\<forall>y \<in> set (y_train X draw). - 1 \<le> y \<and> y \<le> 10)"
    using y_train_bounds by blast
  have div: "- 1 \<le> r \<and> r \<le> 10 \<longrightarrow>
      3.2 \<le> daily_water r \<and>
      hydration_block recs t r \<noteq> Inl ZeroDivisionError \<and>
      generate_recommendations r p w a \<noteq> Inl ZeroDivisionError"
  proof
    assume "- 1 \<le> r \<and> r \<le> 10"
    then have dw: "3.2 \<le> daily_water r" by (simp add: daily_water_def)
    then have nz: "daily_water r \<noteq> 0" by simp
    have "hydration_block recs t r \<noteq> Inl ZeroDivisionError"
      by (simp add: hydration_block_append [OF nz])
    moreover have "generate_recommendations r p w a \<noteq> Inl ZeroDivisionError"
      by (rule generate_recommendations_no_division_error [OF nz])
    ultimately show "3.2 \<le> daily_water r \<and>
      hydration_block recs t r \<noteq> Inl ZeroDivisionError \<and>
      generate_recommendations r p w a \<noteq> Inl ZeroDivisionError"
      using dw by simp
  qed
  from lab ys div show ?thesis by simp
qed

text \<open>
  The theorem at the lowest label, -1 (a row on which no rule adds anything, perturbation
  -1): the divisor is 3.2 and the hydration block, which fires at 33 degrees, returns.
\<close>

theorem daily_water_positive_witness:
  "(- 1 :: int) \<in> {- 1, 0, 1} \<and>
   train_label [25, 30, 50, 5, 80, 40, 30, 3, 0] (- 1) = - 1 \<and>
   daily_water (- 1) = 3.2 \<and>
   (- 1 :: real) \<le> - 1 \<and> (- 1 :: real) \<le> 10 \<and>
   hydration_block [] 33 (- 1) \<noteq> Inl ZeroDivisionError"
  using daily_water_positive
    [of "- 1" "[25, 30, 50, 5, 80, 40, 30, 3, 0]" "\<lambda>i. - 1" "[]" "- 1" "[]" 33]
  by (simp add: train_label_def rule_risk_def daily_water_def Let_def)

subsection \<open>Feature vector and prediction\<close>

lemma extract_features_present:
  assumes "temperature w = Some t" and "heat_index w = Some hi" and "humidity w = Some h"
    and "uv_index w = Some u" and "aqi a = Some q" and "pm2_5 a = Some pm"
  shows "extract_features p w a =
     Inr [t, hi, h, u, q, pm, of_int (get_or (age p) 30), get_or (outdoor_hours p) 4,
          (if has_health_conditions p then 1 else 0)]"
  using assms by (simp add: extract_features_def bind_err_def getitem_def)

lemma extract_features_missing:
  assumes "temperature w = None \<or> heat_index w = None \<or> humidity w = None \<or>
           uv_index w = None \<or> aqi a = None \<or> pm2_5 a = None"
  shows "\<exists>k \<in> set [''temperature'', ''heat_index'', ''humidity'', ''uv_index'', ''aqi'',
                    ''pm2_5'']. extract_features p w a = Inl (KeyError k)"
proof (cases "temperature w")
  case None
  then show ?thesis by (simp add: extract_features_def bind_err_def getitem_def)
next
  case t: (Some t)
  show ?thesis
  proof (cases "heat_index w")
    case None
    with t show ?thesis by (simp add: extract_features_def bind_err_def getitem_def)
  next
    case hi: (Some hi)
    show ?thesis
    proof (cases "humidity w")
      case None
      with t hi show ?thesis by (simp add: extract_features_def bind_err_def getitem_def)
    next
      case h: (Some h)
      show ?thesis
      proof (cases "uv_index w")
        case None
        with t hi h show ?thesis
          by (simp add: extract_features_def bind_err_def getitem_def)
      next
        case u: (Some u)
        show ?thesis
        proof (cases "aqi a")
          case None
          with t hi h u show ?thesis
            by (simp add: extract_features_def bind_err_def getitem_def)
        next
          case q: (Some q)
          with assms t hi h u have "pm2_5 a = None" by simp
          with t hi h u q show ?thesis
            by (simp add: extract_features_def bind_err_def getitem_def)
        qed
      qed
    qed
  qed
qed

lemma predict_risk_features_error:
  "extract_features p w a = Inl e \<Longrightarrow> predict_risk model scaler p w a = Inl e"
  by (simp add: predict_risk_def bind_err_def)

lemma predict_risk_score:
  assumes "predict_risk model scaler p w a = Inr res"
  shows "\<exists>fs. extract_features p w a = Inr fs \<and> risk_score res = model (scaler fs) \<and>
              severity_level res = get_severity_level (model (scaler fs))"
  using assms
  by (auto simp: predict_risk_def bind_err_def Let_def split: sum.splits)

text \<open>
  Claim C9. When the weather or air-quality reading lacks one of temperature, heat_index,
  humidity, uv_index, aqi and pm2_5, building the feature vector fails with the error of
  the missing key (Python's \<open>KeyError\<close>, the only validation failure the code has), and
  so does \<open>predict_risk\<close>. When all six are present it does not fail, whatever the profile
  lacks: the vector has length 9, starts with the six readings in the documented order,
  and continues with the age (30 when absent), the outdoor hours (4 when absent) and the
  health-condition flag (0 when the list is absent or empty).
\<close>

theorem extract_features_contract:
  "(temperature w = None \<or> heat_index w = None \<or> humidity w = None \<or>
    uv_index w = None \<or> aqi a = None \<or> pm2_5 a = None \<longrightarrow>
      (\<exists>k \<in> set [''temperature'', ''heat_index'', ''humidity'', ''uv_index'', ''aqi'',
                   ''pm2_5''].
          extract_features p w a = Inl (KeyError k) \<and>
          predict_risk model scaler p w a = Inl (KeyError k))) \<and>
   (temperature w = Some t \<and> heat_index w = Some hi \<and> humidity w = Some h \<and>
    uv_index w = Some u \<and> aqi a = Some q \<and> pm2_5 a = Some pm \<longrightarrow>
      (\<exists>fs. extract_features p w a = Inr fs \<and> length fs = 9 \<and>
            take 6 fs = [t, hi, h, u, q, pm] \<and>
            fs ! 6 = (case age p of None \<Rightarrow> 30 | Some n \<Rightarrow> of_int n) \<and>
            fs ! 7 = (case outdoor_hours p of None \<Rightarrow> 4 | Some x \<Rightarrow> x) \<and>
            fs ! 8 = (case health_conditions p of None \<Rightarrow> 0
                      | Some cs \<Rightarrow> if cs = [] then 0 else 1)))"
proof (intro conjI impI)
  assume "temperature w = None \<or> heat_index w = None \<or> humidity w = None \<or>
    uv_index w = None \<or> aqi a = None \<or> pm2_5 a = None"
  then obtain k where k: "k \<in> set [''temperature'', ''heat_index'', ''humidity'',
      ''uv_index'', ''aqi'', ''pm2_5'']"
    and e: "extract_features p w a = Inl (KeyError k)"
    using extract_features_missing by blast
  from e have "predict_risk model scaler p w a = Inl (KeyError k)"
    by (rule predict_risk_features_error)
  with k e show "\<exists>k \<in> set [''temperature'', ''heat_index'', ''humidity'', ''uv_index'',
      ''aqi'', ''pm2_5''].
          extract_features p w a = Inl (KeyError k) \<and>
          predict_risk model scaler p w a = Inl (KeyError k)"
    by blast
next
  assume "temperature w = Some t \<and> heat_index w = Some hi \<and> humidity w = Some h \<and>
    uv_index w = Some u \<and> aqi a = Some q \<and> pm2_5 a = Some pm"
  then have "extract_features p w a =
     Inr [t, hi, h, u, q, pm, of_int (get_or (age p) 30), get_or (outdoor_hours p) 4,
          (if has_health_conditions p then 1 else 0)]"
    by (simp add: extract_features_present)
  then show "\<exists>fs. extract_features p w a = Inr fs \<and> length fs = 9 \<and>
            take 6 fs = [t, hi, h, u, q, pm] \<and>
            fs ! 6 = (case age p of None \<Rightarrow> 30 | Some n \<Rightarrow> of_int n) \<and>
            fs ! 7 = (case outdoor_hours p of None \<Rightarrow> 4 | Some x \<Rightarrow> x) \<and>
            fs ! 8 = (case health_conditions p of None \<Rightarrow> 0
                      | Some cs \<Rightarrow> if cs = [] then 0 else 1)"
    by (simp add: get_or_def has_health_conditions_def numeral_eq_Suc
        split: option.splits)
qed

text \<open>
  The theorem on a weather reading without humidity, and on complete readings with an empty
  profile.
\<close>

theorem extract_features_contract_witness:
  "extract_features \<lparr>age = None, outdoor_hours = None, health_conditions = None\<rparr>
     \<lparr>temperature = Some 38.5, heat_index = Some 45.2, humidity = None, uv_index = Some 8.5,
      timestamp = Some ''2024-01-01T12:00:00''\<rparr>
     \<lparr>aqi = Some 180, pm2_5 = Some 85.5\<rparr> = Inl (KeyError ''humidity'') \<and>
   extract_features \<lparr>age = None, outdoor_hours = None, health_conditions = None\<rparr>
     \<lparr>temperature = Some 38.5, heat_index = Some 45.2, humidity = Some 65, uv_index = Some 8.5,
      timestamp = Some ''2024-01-01T12:00:00''\<rparr>
     \<lparr>aqi = Some 180, pm2_5 = Some 85.5\<rparr> =
     Inr [38.5, 45.2, 65, 8.5, 180, 85.5, 30, 4, 0]"
  using extract_features_contract
    [of "\<lparr>temperature = Some 38.5, heat_index = Some 45.2, humidity = None,
           uv_index = Some 8.5, timestamp = Some ''2024-01-01T12:00:00''\<rparr>"
        "\<lparr>aqi = Some 180, pm2_5 = Some 85.5\<rparr>"
        "\<lparr>age = None, outdoor_hours = None, health_conditions = None\<rparr>"]
    extract_features_contract
    [of "\<lparr>temperature = Some 38.5, heat_index = Some 45.2, humidity = Some 65,
           uv_index = Some 8.5, timestamp = Some ''2024-01-01T12:00:00''\<rparr>"
        "\<lparr>aqi = Some 180, pm2_5 = Some 85.5\<rparr>"
        "\<lparr>age = None, outdoor_hours = None, health_conditions = None\<rparr>"]
  by (simp add: extract_features_def bind_err_def getitem_def get_or_def
      has_health_conditions_def)

text \<open>
  Claim C7, where the code departs from it. \<open>predict_risk\<close> returns the class the
  classifier predicts, unchanged, and the classes are the training labels, which go down
  to -1. With a classifier that answers with the label the training loop gives the row of
  rule score 0 under the perturbation -1, the risk score returned is -1.
\<close>

theorem predict_risk_score_below_zero:
  "predict_risk (\<lambda>v. of_int (train_label [25, 30, 50, 5, 80, 40, 30, 3, 0] (- 1))) (\<lambda>v. v)
     \<lparr>age = Some 30, outdoor_hours = Some 3, health_conditions = Some []\<rparr>
     \<lparr>temperature = Some 25, heat_index = Some 30, humidity = Some 50, uv_index = Some 5,
      timestamp = Some ''2024-01-01T12:00:00''\<rparr>
     \<lparr>aqi = Some 80, pm2_5 = Some 40\<rparr> =
   Inr \<lparr>risk_score = - 1, severity_level = ''Low'', recommendations = [],
        timestamp = ''2024-01-01T12:00:00''\<rparr>"
  by (simp add: predict_risk_def extract_features_def bind_err_def getitem_def get_or_def
      has_health_conditions_def train_label_def rule_risk_def get_severity_level_def
      generate_recommendations_def temperature_block_def hydration_block_def aqi_block_def
      uv_block_def health_block_def age_block_def general_block_def Let_def)

end
